theory Spec2Isabelle
  imports Main "HOL-Library.Word"
begin

section \<open>Authority extraction in \<open>scripts/reprocess_null_from_address.py\<close>\<close>

text \<open>
  The script recovers the sender of a recorded token transfer from the instructions of the
  transaction. Two functions hold the logic: \<open>parse_token_transfer_authority\<close>, which reads
  the authority out of one compiled token instruction, and
  \<open>extract_from_address_from_transaction\<close>, which fetches a transaction and scans its
  instructions. Both are embedded here as they are written; exceptions are values of a sum
  type, \<open>print\<close> calls are a list of diagnostics returned beside the result.
\<close>

subsection \<open>Values\<close>

text \<open>
  An account key is held by its base58 text, the value \<open>str\<close> gives for it; the account
  indices and the program index of a compiled instruction are bytes in the wire format, so
  they are never negative.
\<close>

type_synonym address = string

datatype exn = IndexError | AttributeError | TypeError | FetchError string

text \<open>Python's \<open>xs[i]\<close> for \<open>i \<ge> 0\<close>: IndexError out of range.\<close>

definition subscript :: "'a list \<Rightarrow> nat \<Rightarrow> exn + 'a" where
  "subscript xs i = (if i < length xs then Inr (xs ! i) else Inl IndexError)"

text \<open>Sequencing of two steps of which the first may raise.\<close>

definition and_then :: "exn + 'a \<Rightarrow> ('a \<Rightarrow> exn + 'b) \<Rightarrow> exn + 'b" where
  "and_then r f = (case r of Inl e \<Rightarrow> Inl e | Inr v \<Rightarrow> f v)"

text \<open>Truth value of an \<open>Optional[str]\<close>: None and the empty string are false.\<close>

fun truthy :: "string option \<Rightarrow> bool" where
  "truthy None = False"
| "truthy (Some s) = (s \<noteq> [])"

subsection \<open>\<open>parse_token_transfer_authority\<close>\<close>

definition parse_token_transfer_authority ::
  "8 word list \<Rightarrow> address list \<Rightarrow> nat list \<Rightarrow> exn + address option" where
  "parse_token_transfer_authority instruction_data account_keys instruction_accounts =
     (if length instruction_data < 9 then Inr None
      else and_then (subscript instruction_data 0) (\<lambda>instruction_type.
        if instruction_type = 3 then
          (if length instruction_accounts \<ge> 3 then
             and_then (subscript instruction_accounts 2) (\<lambda>authority_index.
               if authority_index < length account_keys then
                 and_then (subscript account_keys authority_index) (\<lambda>k. Inr (Some k))
               else Inr None)
           else Inr None)
        else if instruction_type = 12 then
          (if length instruction_accounts \<ge> 4 then
             and_then (subscript instruction_accounts 3) (\<lambda>authority_index.
               if authority_index < length account_keys then
                 and_then (subscript account_keys authority_index) (\<lambda>k. Inr (Some k))
               else Inr None)
           else Inr None)
        else Inr None))"

subsection \<open>Instructions and the fetched transaction\<close>

text \<open>
  A compiled instruction has a program index, account indices and data bytes. A parsed
  instruction has the attribute \<open>parsed\<close>, a JSON value: when it is a dict, its entry
  \<open>info\<close> (if any) is either a dict of named fields or some other JSON value, which has no
  \<open>get\<close>. The fields of the dict that the code reads hold addresses as text. The program
  of a parsed instruction and the entry \<open>type\<close> are carried along; the code never reads
  them.

  The response is nested: its value, the transaction of the value, the transaction of
  that, and its message. Each of them may be missing (None), and so may the account table
  and the instruction list of a message.
\<close>

record CompiledInstruction =
  program_id_index :: nat
  accounts :: "nat list"
  data :: "8 word list"

datatype info_value = InfoDict "string \<rightharpoonup> string" | InfoOther

datatype parsed_value =
    ParsedDict (parsed_type: "string option") (parsed_info: "info_value option")
  | ParsedOther

record ParsedInstruction =
  program :: string
  program_id :: address
  parsed :: parsed_value

datatype instruction = Raw CompiledInstruction | Structured ParsedInstruction

record Message =
  account_keys :: "address list option"
  instructions :: "instruction list option"

record VersionedTransaction =
  message :: "Message option"

record EncodedTransactionWithStatusMeta =
  transaction :: "VersionedTransaction option"

record EncodedConfirmedTransactionWithStatusMeta =
  value_transaction :: "EncodedTransactionWithStatusMeta option"

record GetTransactionResp =
  resp_value :: "EncodedConfirmedTransactionWithStatusMeta option"

text \<open>The lines the function prints, each with the first 20 characters of the signature.\<close>

datatype diag =
    TransactionNotFoundOnRpc string
  | InvalidTransactionStructure string
  | ErrorParsingInstruction exn
  | NoTokenTransferFound string
  | ErrorFetchingTransaction string exn

subsection \<open>\<open>extract_from_address_from_transaction\<close>\<close>

definition TOKEN_PROGRAM_ID :: address where
  "TOKEN_PROGRAM_ID = ''TokenkegQfeZyiNwAJbNbGKPFXCWuBvf9Ss623VQ5DA''"

definition TOKEN_2022_PROGRAM_ID :: address where
  "TOKEN_2022_PROGRAM_ID = ''TokenzQdBNbLqP5VEhdkAS6EPFLC1PHnBqCXEpPxuEb''"

text \<open>\<open>info.get(key)\<close>: AttributeError when \<open>info\<close> is not a dict.\<close>

fun info_get :: "info_value \<Rightarrow> string \<Rightarrow> exn + string option" where
  "info_get (InfoDict m) k = Inr (m k)"
| "info_get InfoOther k = Inl AttributeError"

text \<open>
  \<open>info.get('authority') or info.get('owner') or info.get('multisigAuthority')\<close>: the first
  operand that is true, else the last one.
\<close>

definition info_authority :: "info_value \<Rightarrow> exn + string option" where
  "info_authority info =
     and_then (info_get info ''authority'') (\<lambda>a.
       if truthy a then Inr a
       else and_then (info_get info ''owner'') (\<lambda>b.
         if truthy b then Inr b
         else info_get info ''multisigAuthority''))"

text \<open>
  The body of the loop for one instruction. \<open>Inr (Some a)\<close>: the function returns \<open>a\<close>;
  \<open>Inr None\<close>: the loop goes on to the next instruction; \<open>Inl e\<close>: the body raises \<open>e\<close>.
  The parsed branch does not touch the account table. The compiled branch subscripts it
  first: a TypeError when the table is None.
\<close>

fun instruction_body :: "address list option \<Rightarrow> instruction \<Rightarrow> exn + address option" where
  "instruction_body keys (Structured instruction) =
     (case parsed instruction of
        ParsedDict ty info_entry \<Rightarrow>
          and_then (info_authority (case info_entry of None \<Rightarrow> InfoDict Map.empty | Some v \<Rightarrow> v))
            (\<lambda>authority. if truthy authority then Inr authority else Inr None)
      | ParsedOther \<Rightarrow> Inr None)"
| "instruction_body None (Raw instruction) = Inl TypeError"
| "instruction_body (Some keys) (Raw instruction) =
     and_then (subscript keys (program_id_index instruction)) (\<lambda>program_id.
       if program_id \<in> set [TOKEN_PROGRAM_ID, TOKEN_2022_PROGRAM_ID] then
         and_then (parse_token_transfer_authority (data instruction) keys
                     (accounts instruction))
           (\<lambda>from_addr. if truthy from_addr then Inr from_addr else Inr None)
       else Inr None)"

text \<open>
  The \<open>for\<close> loop with its \<open>try\<close>: an exception of the body is printed and the loop goes on.
  The result is the lines printed and the value returned.
\<close>

fun scan_instructions ::
  "string \<Rightarrow> address list option \<Rightarrow> instruction list \<Rightarrow> diag list \<times> address option" where
  "scan_instructions sig20 keys [] = ([NoTokenTransferFound sig20], None)"
| "scan_instructions sig20 keys (instruction # rest) =
     (case instruction_body keys instruction of
        Inl e \<Rightarrow>
          (case scan_instructions sig20 keys rest of
             (printed, r) \<Rightarrow> (ErrorParsingInstruction e # printed, r))
      | Inr (Some from_addr) \<Rightarrow> ([], Some from_addr)
      | Inr None \<Rightarrow> scan_instructions sig20 keys rest)"

text \<open>
  The client is the outcome of \<open>Signature.from_string\<close> and \<open>get_transaction\<close> for a
  signature: a response, or the exception raised, which the outer \<open>except\<close> catches. The
  header of the loop iterates over the instruction list: a TypeError when the list is None,
  raised outside the \<open>try\<close> of the loop body and so caught by the outer \<open>except\<close> too.
\<close>

definition extract_from_address_from_transaction ::
  "(string \<Rightarrow> exn + GetTransactionResp) \<Rightarrow> string \<Rightarrow> diag list \<times> address option" where
  "extract_from_address_from_transaction rpc_client signature =
     (case rpc_client signature of
        Inl e \<Rightarrow> ([ErrorFetchingTransaction (take 20 signature) e], None)
      | Inr result \<Rightarrow>
          (case resp_value result of
             None \<Rightarrow> ([TransactionNotFoundOnRpc (take 20 signature)], None)
           | Some v \<Rightarrow>
               (case value_transaction v of
                  None \<Rightarrow> ([InvalidTransactionStructure (take 20 signature)], None)
                | Some tx \<Rightarrow>
                    (case transaction tx of
                       None \<Rightarrow> ([InvalidTransactionStructure (take 20 signature)], None)
                     | Some t \<Rightarrow>
                         (case message t of
                            None \<Rightarrow> ([InvalidTransactionStructure (take 20 signature)], None)
                          | Some m \<Rightarrow>
                              (case instructions m of
                                 None \<Rightarrow>
                                   ([ErrorFetchingTransaction (take 20 signature) TypeError],
                                    None)
                               | Some instrs \<Rightarrow>
                                   scan_instructions (take 20 signature) (account_keys m)
                                     instrs))))))"

subsection \<open>Notions used in the statements\<close>

text \<open>
  What one instruction contributes to the scan: the address the body returns, or nothing
  when the body falls through or raises.
\<close>

definition instruction_authority ::
  "address list option \<Rightarrow> instruction \<Rightarrow> address option" where
  "instruction_authority keys i =
     (case instruction_body keys i of Inl e \<Rightarrow> None | Inr r \<Rightarrow> r)"

text \<open>The lines the loop prints for the exceptions of a run of instructions.\<close>

definition errors_printed :: "address list option \<Rightarrow> instruction list \<Rightarrow> diag list" where
  "errors_printed keys instrs =
     concat (map (\<lambda>i. case instruction_body keys i of
                          Inl e \<Rightarrow> [ErrorParsingInstruction e] | Inr r \<Rightarrow> []) instrs)"

text \<open>
  The transaction view is the value of the response. \<open>extract\<close> is the function on a
  response that carries a view; \<open>view_message\<close> is the message of a view, None when the
  view lacks one of the parts the function checks (the message found may still lack its
  account table or its instruction list); \<open>transaction_view\<close> builds the view with all
  its parts from an account table and an instruction list.
\<close>

definition "extract" ::
  "string \<Rightarrow> EncodedConfirmedTransactionWithStatusMeta \<Rightarrow> diag list \<times> address option" where
  "extract signature v =
     extract_from_address_from_transaction (\<lambda>s. Inr \<lparr>resp_value = Some v\<rparr>) signature"

definition view_message :: "EncodedConfirmedTransactionWithStatusMeta \<Rightarrow> Message option" where
  "view_message v =
     (case value_transaction v of
        None \<Rightarrow> None
      | Some tx \<Rightarrow> (case transaction tx of None \<Rightarrow> None | Some t \<Rightarrow> message t))"

definition transaction_view ::
  "address list \<Rightarrow> instruction list \<Rightarrow> EncodedConfirmedTransactionWithStatusMeta" where
  "transaction_view keys instrs =
     \<lparr>value_transaction = Some \<lparr>transaction = Some \<lparr>message =
        Some \<lparr>account_keys = Some keys, instructions = Some instrs\<rparr>\<rparr>\<rparr>\<rparr>"

text \<open>
  The structured reader as the specification words it: of the fields \<open>authority\<close>,
  \<open>owner\<close> and \<open>multisigAuthority\<close> of the \<open>info\<close> dict, in this order, the first
  that is present and not empty; None when there is none, or no dict of fields to read.
\<close>

definition present_nonempty :: "string option \<Rightarrow> bool" where
  "present_nonempty field = (field \<noteq> None \<and> field \<noteq> Some [])"

fun structured_reader_spec :: "parsed_value \<Rightarrow> address option" where
  "structured_reader_spec (ParsedDict ty (Some (InfoDict flds))) =
     (if present_nonempty (flds ''authority'') then flds ''authority''
      else if present_nonempty (flds ''owner'') then flds ''owner''
      else if present_nonempty (flds ''multisigAuthority'') then flds ''multisigAuthority''
      else None)"
| "structured_reader_spec (ParsedDict ty (Some InfoOther)) = None"
| "structured_reader_spec (ParsedDict ty None) = None"
| "structured_reader_spec ParsedOther = None"

section \<open>The compiled-instruction decoder\<close>

lemma subscript_in_range: "i < length xs \<Longrightarrow> subscript xs i = Inr (xs ! i)"
  by (simp add: subscript_def)

lemma and_then_Inr: "and_then (Inr v) f = f v"
  by (simp add: and_then_def)

lemma parse_never_raises: "\<exists>r. parse_token_transfer_authority bytes keys idxs = Inr r"
  by (simp add: parse_token_transfer_authority_def subscript_def and_then_def)

lemma parse_short_data:
  "length bytes < 9 \<Longrightarrow> parse_token_transfer_authority bytes keys idxs = Inr None"
  by (simp add: parse_token_transfer_authority_def)

lemma parse_other_opcode:
  "opcode \<noteq> 3 \<Longrightarrow> opcode \<noteq> 12 \<Longrightarrow>
   parse_token_transfer_authority (opcode # payload) keys idxs = Inr None"
  by (simp add: parse_token_transfer_authority_def subscript_def and_then_def)

lemma parse_few_accounts_3:
  "bytes ! 0 = 3 \<Longrightarrow> length idxs < 3 \<Longrightarrow>
   parse_token_transfer_authority bytes keys idxs = Inr None"
  by (simp add: parse_token_transfer_authority_def subscript_def and_then_def)

lemma parse_few_accounts_12:
  "bytes ! 0 = 12 \<Longrightarrow> length idxs < 4 \<Longrightarrow>
   parse_token_transfer_authority bytes keys idxs = Inr None"
  by (simp add: parse_token_transfer_authority_def subscript_def and_then_def)

lemma parse_authority_out_of_range_3:
  "bytes ! 0 = 3 \<Longrightarrow> length keys \<le> idxs ! 2 \<Longrightarrow>
   parse_token_transfer_authority bytes keys idxs = Inr None"
  by (simp add: parse_token_transfer_authority_def subscript_def and_then_def)

lemma parse_authority_out_of_range_12:
  "bytes ! 0 = 12 \<Longrightarrow> length keys \<le> idxs ! 3 \<Longrightarrow>
   parse_token_transfer_authority bytes keys idxs = Inr None"
  by (simp add: parse_token_transfer_authority_def subscript_def and_then_def)

text \<open>
  C1. For a compiled token instruction with at least 9 data bytes: with opcode 3, at least
  three account indices and the third one inside the account table, the decoder returns the
  table entry at that index; with opcode 12, at least four account indices and the fourth
  one inside the table, it returns the entry at that index.
\<close>

theorem parse_transfer_authority_position:
  "(length bytes \<ge> 9 \<and> bytes ! 0 = 3 \<and>
    length idxs \<ge> 3 \<and> idxs ! 2 < length keys
    \<longrightarrow> parse_token_transfer_authority bytes keys idxs
        = Inr (Some (keys ! (idxs ! 2))))
   \<and>
   (length bytes \<ge> 9 \<and> bytes ! 0 = 12 \<and>
    length idxs \<ge> 4 \<and> idxs ! 3 < length keys
    \<longrightarrow> parse_token_transfer_authority bytes keys idxs
        = Inr (Some (keys ! (idxs ! 3))))"
proof (intro conjI impI)
  assume h: "length bytes \<ge> 9 \<and> bytes ! 0 = 3 \<and> length idxs \<ge> 3 \<and> idxs ! 2 < length keys"
  then have "0 < length bytes" and "2 < length idxs" by auto
  with h show "parse_token_transfer_authority bytes keys idxs = Inr (Some (keys ! (idxs ! 2)))"
    by (simp add: parse_token_transfer_authority_def subscript_in_range and_then_Inr)
next
  assume h: "length bytes \<ge> 9 \<and> bytes ! 0 = 12 \<and> length idxs \<ge> 4 \<and> idxs ! 3 < length keys"
  then have "0 < length bytes" and "3 < length idxs" by auto
  with h show "parse_token_transfer_authority bytes keys idxs = Inr (Some (keys ! (idxs ! 3)))"
    by (simp add: parse_token_transfer_authority_def subscript_in_range and_then_Inr)
qed

theorem parse_transfer_authority_position_witness:
  "parse_token_transfer_authority [3, 0, 0, 0, 0, 0, 0, 0, 0] [''A'', ''B'', ''C''] [0, 1, 2]
     = Inr (Some ''C'')
   \<and> parse_token_transfer_authority [12, 0, 0, 0, 0, 0, 0, 0, 0, 0]
       [''A'', ''B'', ''C'', ''D''] [0, 1, 2, 3]
     = Inr (Some ''D'')"
  using parse_transfer_authority_position
          [of "[3, 0, 0, 0, 0, 0, 0, 0, 0]" "[0, 1, 2]" "[''A'', ''B'', ''C'']"]
        parse_transfer_authority_position
          [of "[12, 0, 0, 0, 0, 0, 0, 0, 0, 0]" "[0, 1, 2, 3]" "[''A'', ''B'', ''C'', ''D'']"]
  by simp

section \<open>The scan over the instructions\<close>

lemma extract_invalid:
  "view_message v = None \<Longrightarrow> extract sg v = ([InvalidTransactionStructure (take 20 sg)], None)"
  by (auto simp: extract_def extract_from_address_from_transaction_def view_message_def
           split: option.splits)

lemma extract_valid:
  "view_message v = Some m \<Longrightarrow> instructions m = Some instrs \<Longrightarrow>
   extract sg v = scan_instructions (take 20 sg) (account_keys m) instrs"
  by (auto simp: extract_def extract_from_address_from_transaction_def view_message_def
           split: option.splits)

lemma extract_no_instruction_list:
  "view_message v = Some m \<Longrightarrow> instructions m = None \<Longrightarrow>
   extract sg v = ([ErrorFetchingTransaction (take 20 sg) TypeError], None)"
  by (auto simp: extract_def extract_from_address_from_transaction_def view_message_def
           split: option.splits)

lemma view_message_transaction_view:
  "view_message (transaction_view keys instrs) =
     Some \<lparr>account_keys = Some keys, instructions = Some instrs\<rparr>"
  by (simp add: view_message_def transaction_view_def)

lemma extract_transaction_view:
  "extract sg (transaction_view keys instrs) = scan_instructions (take 20 sg) (Some keys) instrs"
  using extract_valid [OF view_message_transaction_view, of keys instrs instrs sg] by simp

lemma scan_Cons_none:
  "instruction_authority keys i = None \<Longrightarrow>
   scan_instructions s keys (i # rest) =
     (errors_printed keys [i] @ fst (scan_instructions s keys rest),
      snd (scan_instructions s keys rest))"
  by (auto simp: instruction_authority_def errors_printed_def split: sum.splits prod.splits)

lemma scan_Cons_some:
  "instruction_authority keys i = Some a \<Longrightarrow> scan_instructions s keys (i # rest) = ([], Some a)"
  by (auto simp: instruction_authority_def split: sum.splits)

lemma errors_printed_Cons:
  "errors_printed keys (i # instrs) = errors_printed keys [i] @ errors_printed keys instrs"
  by (simp add: errors_printed_def)

lemma errors_printed_Nil: "errors_printed keys [] = []"
  by (simp add: errors_printed_def)

lemma errors_printed_append:
  "errors_printed keys (xs @ ys) = errors_printed keys xs @ errors_printed keys ys"
  by (simp add: errors_printed_def)

lemma scan_skip_prefix:
  "\<forall>i \<in> set pre. instruction_authority keys i = None \<Longrightarrow>
   scan_instructions s keys (pre @ post) =
     (errors_printed keys pre @ fst (scan_instructions s keys post),
      snd (scan_instructions s keys post))"
proof (induction pre)
  case Nil
  show ?case by (simp add: errors_printed_Nil)
next
  case (Cons i pre)
  then have none: "instruction_authority keys i = None"
    and rest: "\<forall>j \<in> set pre. instruction_authority keys j = None" by simp_all
  show ?case
    using scan_Cons_none [OF none, of s "pre @ post"] Cons.IH [OF rest]
    by (simp add: errors_printed_Cons [of keys i pre])
qed

lemma scan_first_match:
  assumes "\<forall>i \<in> set pre. instruction_authority keys i = None"
    and "instruction_authority keys i = Some a"
  shows "scan_instructions s keys (pre @ i # post) = (errors_printed keys pre, Some a)"
  using scan_skip_prefix [OF assms(1), of s "i # post"] scan_Cons_some [OF assms(2), of s post]
  by simp


lemma errors_printed_shape:
  "d \<in> set (errors_printed keys instrs) \<Longrightarrow> \<exists>e. d = ErrorParsingInstruction e"
  by (auto simp: errors_printed_def split: sum.splits)



lemma raw_authority_none:
  "parse_token_transfer_authority (data r) keys (accounts r) = Inr None \<Longrightarrow>
   instruction_authority (Some keys) (Raw r) = None"
  by (simp add: instruction_authority_def and_then_def split: sum.splits)

lemma raw_program_out_of_range:
  "length keys \<le> program_id_index r \<Longrightarrow> instruction_body (Some keys) (Raw r) = Inl IndexError"
  by (simp add: subscript_def and_then_def)

lemma scan_drop_none:
  "instruction_authority keys i = None \<Longrightarrow>
   snd (scan_instructions s keys (pre @ i # post)) = snd (scan_instructions s keys (pre @ post))"
proof (induction pre)
  case Nil
  then show ?case by (simp add: scan_Cons_none del: scan_instructions.simps)
next
  case (Cons x pre)
  show ?case
  proof (cases "instruction_authority keys x")
    case None
    then show ?thesis using Cons by (simp add: scan_Cons_none del: scan_instructions.simps)
  next
    case (Some a)
    then show ?thesis by (simp add: scan_Cons_some del: scan_instructions.simps)
  qed
qed

lemma scan_never_invalid_structure:
  "InvalidTransactionStructure s' \<notin> set (fst (scan_instructions s keys instrs))"
proof (induction instrs)
  case Nil
  show ?case by simp
next
  case (Cons x xs)
  show ?case
  proof (cases "instruction_authority keys x")
    case None
    then show ?thesis using Cons errors_printed_shape [of "InvalidTransactionStructure s'" keys "[x]"]
      by (auto simp: scan_Cons_none simp del: scan_instructions.simps)
  next
    case (Some a)
    then show ?thesis by (simp add: scan_Cons_some del: scan_instructions.simps)
  qed
qed

section \<open>Malformed and unsupported compiled instructions\<close>

text \<open>
  C6. A compiled token instruction whose data is empty or shorter than 9 bytes, or whose
  account-index list is shorter than its opcode requires (3 entries for opcode 3, 4 for
  opcode 12), decodes to None: the decoder returns normally, without an exception, and the
  instruction contributes no authority to the scan.
\<close>

theorem parse_malformed_is_none:
  "length bytes < 9 \<or> (bytes ! 0 = 3 \<and> length idxs < 3) \<or> (bytes ! 0 = 12 \<and> length idxs < 4)
   \<longrightarrow> parse_token_transfer_authority bytes keys idxs = Inr None
       \<and> instruction_authority (Some keys)
             (Raw \<lparr>program_id_index = p, accounts = idxs, data = bytes\<rparr>) = None"
proof
  assume "length bytes < 9 \<or> (bytes ! 0 = 3 \<and> length idxs < 3) \<or> (bytes ! 0 = 12 \<and> length idxs < 4)"
  then have none: "parse_token_transfer_authority bytes keys idxs = Inr None"
    using parse_short_data parse_few_accounts_3 parse_few_accounts_12 by blast
  then show "parse_token_transfer_authority bytes keys idxs = Inr None
       \<and> instruction_authority (Some keys)
             (Raw \<lparr>program_id_index = p, accounts = idxs, data = bytes\<rparr>) = None"
    by (simp add: raw_authority_none)
qed

theorem parse_malformed_is_none_witness:
  "parse_token_transfer_authority [] [''A'', ''B'', ''C''] [0, 1, 2] = Inr None
   \<and> parse_token_transfer_authority [3, 1, 0, 0, 0, 0, 0, 0] [''A'', ''B'', ''C''] [0, 1, 2] = Inr None
   \<and> parse_token_transfer_authority [3, 1, 0, 0, 0, 0, 0, 0, 0] [''A'', ''B'', ''C''] [0, 1] = Inr None
   \<and> parse_token_transfer_authority [12, 1, 0, 0, 0, 0, 0, 0, 0, 6] [''A'', ''B'', ''C''] [0, 1, 2]
       = Inr None"
  using parse_malformed_is_none [of "[]" "[0, 1, 2]" "[''A'', ''B'', ''C'']" 0]
    parse_malformed_is_none [of "[3, 1, 0, 0, 0, 0, 0, 0]" "[0, 1, 2]" "[''A'', ''B'', ''C'']" 0]
    parse_malformed_is_none [of "[3, 1, 0, 0, 0, 0, 0, 0, 0]" "[0, 1]" "[''A'', ''B'', ''C'']" 0]
    parse_malformed_is_none [of "[12, 1, 0, 0, 0, 0, 0, 0, 0, 6]" "[0, 1, 2]" "[''A'', ''B'', ''C'']" 0]
  by simp

text \<open>
  C7. A compiled instruction whose first data byte is neither 3 nor 12 decodes to None,
  whatever its account indices and remaining bytes are: the decoder returns normally, and
  the instruction contributes no authority to the scan.
\<close>

theorem parse_unsupported_opcode_is_none:
  assumes "opcode \<noteq> 3" and "opcode \<noteq> 12"
  shows "parse_token_transfer_authority (opcode # payload) keys idxs = Inr None
    \<and> instruction_authority (Some keys)
          (Raw \<lparr>program_id_index = p, accounts = idxs, data = opcode # payload\<rparr>) = None"
proof -
  have none: "parse_token_transfer_authority (opcode # payload) keys idxs = Inr None"
    using assms by (rule parse_other_opcode)
  then show ?thesis
    by (simp add: raw_authority_none)
qed

theorem parse_unsupported_opcode_is_none_witness:
  "(7 :: 8 word) \<noteq> 3 \<and> (7 :: 8 word) \<noteq> 12
   \<and> parse_token_transfer_authority [7, 1, 0, 0, 0, 0, 0, 0, 0] [''A'', ''B'', ''C''] [0, 1, 2]
       = Inr None"
proof -
  have h3: "(7 :: 8 word) \<noteq> 3" and h12: "(7 :: 8 word) \<noteq> 12" by simp_all
  show ?thesis
    using h3 h12 parse_unsupported_opcode_is_none [OF h3 h12, of "[1, 0, 0, 0, 0, 0, 0, 0]"
        "[''A'', ''B'', ''C'']" "[0, 1, 2]" 0]
    by simp
qed

section \<open>The extraction pipeline\<close>

text \<open>
  C2. The scan goes through the instructions in their order and returns the authority of
  the first instruction that contributes one: when no instruction of a prefix contributes
  an authority and the next one contributes \<open>a\<close>, the result is \<open>a\<close> (with the lines
  printed for the exceptions of the prefix), and it is the same whatever instructions
  follow, since they are never consulted.
\<close>

theorem extract_first_match_wins:
  assumes "\<forall>j \<in> set pre. instruction_authority (Some keys) j = None"
    and "instruction_authority (Some keys) i = Some a"
  shows "extract sg (transaction_view keys (pre @ i # post)) = (errors_printed (Some keys) pre, Some a)
    \<and> extract sg (transaction_view keys (pre @ i # post')) =
        extract sg (transaction_view keys (pre @ i # post))"
  using scan_first_match [OF assms]
  by (simp add: extract_transaction_view del: scan_instructions.simps)

theorem extract_first_match_wins_witness:
  "extract ''1111111111111111111111111111111111111111111111111111111111111111''
    (transaction_view
      [''A'', ''B'', ''C'', TOKEN_PROGRAM_ID, ''11111111111111111111111111111111'']
      [Raw \<lparr>program_id_index = 4, accounts = [0, 1], data = [2, 0, 0, 0]\<rparr>,
       Raw \<lparr>program_id_index = 3, accounts = [0, 1, 2], data = [3, 1, 0, 0, 0, 0, 0, 0, 0]\<rparr>,
       Structured \<lparr>program = ''spl-token'', program_id = TOKEN_PROGRAM_ID,
                   parsed = ParsedDict (Some ''transfer'') (Some InfoOther)\<rparr>])
   = ([], Some ''C'')"
proof -
  let ?keys = "[''A'', ''B'', ''C'', TOKEN_PROGRAM_ID, ''11111111111111111111111111111111'']"
  let ?first = "Raw \<lparr>program_id_index = 4, accounts = [0, 1], data = [2, 0, 0, 0]\<rparr>"
  let ?second = "Raw \<lparr>program_id_index = 3, accounts = [0, 1, 2],
                       data = [3, 1, 0, 0, 0, 0, 0, 0, 0]\<rparr>"
  have body1: "instruction_body (Some ?keys) ?first = Inr None"
    by (simp add: subscript_def and_then_def TOKEN_PROGRAM_ID_def TOKEN_2022_PROGRAM_ID_def)
  have h1: "\<forall>j \<in> set [?first]. instruction_authority (Some ?keys) j = None"
    using body1 by (simp add: instruction_authority_def del: instruction_body.simps)
  have h2: "instruction_authority (Some ?keys) ?second = Some ''C''"
    by (simp add: instruction_authority_def subscript_def and_then_def
          parse_token_transfer_authority_def)
  have "errors_printed (Some ?keys) [?first] = []"
    using body1 by (simp add: errors_printed_def del: instruction_body.simps)
  then show ?thesis
    using extract_first_match_wins [OF h1 h2,
        of "''1111111111111111111111111111111111111111111111111111111111111111''"]
    by simp
qed

text \<open>
  C5. A compiled instruction whose program index is outside the account table, or whose
  account index at the authority position (the third for opcode 3, the fourth for opcode
  12) is outside the table, contributes no authority, and the scan goes on: the value
  returned for the transaction is the one returned without that instruction. For the
  program index the IndexError is caught by the loop; for the authority index the decoder
  checks the range itself.
\<close>

theorem out_of_range_index_is_skipped:
  assumes "length keys \<le> program_id_index r
        \<or> (9 \<le> length (data r) \<and> data r ! 0 = 3 \<and> 3 \<le> length (accounts r)
             \<and> length keys \<le> accounts r ! 2)
        \<or> (9 \<le> length (data r) \<and> data r ! 0 = 12 \<and> 4 \<le> length (accounts r)
             \<and> length keys \<le> accounts r ! 3)"
  shows "instruction_authority (Some keys) (Raw r) = None
    \<and> snd (extract sg (transaction_view keys (pre @ Raw r # post))) =
        snd (extract sg (transaction_view keys (pre @ post)))"
proof -
  from assms have none: "instruction_authority (Some keys) (Raw r) = None"
  proof (elim disjE)
    assume "length keys \<le> program_id_index r"
    then show ?thesis
      by (simp add: instruction_authority_def raw_program_out_of_range del: instruction_body.simps)
  next
    assume "9 \<le> length (data r) \<and> data r ! 0 = 3 \<and> 3 \<le> length (accounts r)
             \<and> length keys \<le> accounts r ! 2"
    then show ?thesis
      by (simp add: raw_authority_none parse_authority_out_of_range_3)
  next
    assume "9 \<le> length (data r) \<and> data r ! 0 = 12 \<and> 4 \<le> length (accounts r)
             \<and> length keys \<le> accounts r ! 3"
    then show ?thesis
      by (simp add: raw_authority_none parse_authority_out_of_range_12)
  qed
  then show ?thesis
    by (simp add: extract_transaction_view scan_drop_none del: scan_instructions.simps)
qed

theorem out_of_range_index_is_skipped_witness:
  "snd (extract ''1111111111111111111111111111111111111111111111111111111111111111''
    (transaction_view [''A'', ''B'', ''C'', TOKEN_PROGRAM_ID]
      [Raw \<lparr>program_id_index = 9, accounts = [0, 1, 2], data = [3, 1, 0, 0, 0, 0, 0, 0, 0]\<rparr>,
       Raw \<lparr>program_id_index = 3, accounts = [0, 1, 7], data = [3, 1, 0, 0, 0, 0, 0, 0, 0]\<rparr>,
       Raw \<lparr>program_id_index = 3, accounts = [0, 1, 2], data = [3, 1, 0, 0, 0, 0, 0, 0, 0]\<rparr>]))
   = Some ''C''"
proof -
  let ?keys = "[''A'', ''B'', ''C'', TOKEN_PROGRAM_ID]"
  let ?bad_program = "\<lparr>program_id_index = 9, accounts = [0, 1, 2],
                        data = [3, 1, 0, 0, 0, 0, 0, 0, 0 :: 8 word]\<rparr>"
  let ?bad_authority = "\<lparr>program_id_index = 3, accounts = [0, 1, 7],
                          data = [3, 1, 0, 0, 0, 0, 0, 0, 0 :: 8 word]\<rparr>"
  let ?good = "Raw \<lparr>program_id_index = 3, accounts = [0, 1, 2],
                     data = [3, 1, 0, 0, 0, 0, 0, 0, 0]\<rparr>"
  have h1: "length ?keys \<le> program_id_index ?bad_program
        \<or> (9 \<le> length (data ?bad_program) \<and> data ?bad_program ! 0 = 3
             \<and> 3 \<le> length (accounts ?bad_program)
             \<and> length ?keys \<le> accounts ?bad_program ! 2)
        \<or> (9 \<le> length (data ?bad_program) \<and> data ?bad_program ! 0 = 12
             \<and> 4 \<le> length (accounts ?bad_program)
             \<and> length ?keys \<le> accounts ?bad_program ! 3)"
    by simp
  have h2: "length ?keys \<le> program_id_index ?bad_authority
        \<or> (9 \<le> length (data ?bad_authority) \<and> data ?bad_authority ! 0 = 3
             \<and> 3 \<le> length (accounts ?bad_authority)
             \<and> length ?keys \<le> accounts ?bad_authority ! 2)
        \<or> (9 \<le> length (data ?bad_authority) \<and> data ?bad_authority ! 0 = 12
             \<and> 4 \<le> length (accounts ?bad_authority)
             \<and> length ?keys \<le> accounts ?bad_authority ! 3)"
    by simp
  have found: "snd (extract ''1111111111111111111111111111111111111111111111111111111111111111''
      (transaction_view ?keys [?good])) = Some ''C''"
    by (simp add: extract_transaction_view subscript_def and_then_def
          parse_token_transfer_authority_def)
  show ?thesis
    using out_of_range_index_is_skipped [OF h1,
        of "''1111111111111111111111111111111111111111111111111111111111111111''" "[]"
        "[Raw ?bad_authority, ?good]"]
      out_of_range_index_is_skipped [OF h2,
        of "''1111111111111111111111111111111111111111111111111111111111111111''" "[]" "[?good]"]
      found
    by (simp del: scan_instructions.simps)
qed

text \<open>
  C8. For a transaction view whose instruction list is empty, the function prints that no
  token transfer was found and returns None.
\<close>

theorem extract_empty_is_not_found:
  assumes "view_message v = Some m" and "instructions m = Some []"
  shows "extract sg v = ([NoTokenTransferFound (take 20 sg)], None)"
  using extract_valid [OF assms, of sg] by simp

theorem extract_empty_is_not_found_witness:
  "extract ''1111111111111111111111111111111111111111111111111111111111111111''
    (transaction_view [''A'', ''B''] [])
   = ([NoTokenTransferFound ''11111111111111111111''], None)"
proof -
  have h: "instructions \<lparr>account_keys = Some [''A'', ''B''], instructions = Some []\<rparr> = Some []"
    by simp
  show ?thesis
    using extract_empty_is_not_found [OF view_message_transaction_view h,
        of "''1111111111111111111111111111111111111111111111111111111111111111''"]
    by simp
qed



text \<open>
  C3, as the code has it. The function reports a malformed transaction, that is, it prints
  the invalid-structure line, alone, and returns None, exactly when the view lacks its
  transaction or its message. A message that lacks its account table or its instruction
  list is not reported so. The invalid-structure line is printed in no other case, so no
  exception inside one instruction produces it; and it never comes with the not-found
  line: the malformed outcome is distinct from the not-found one.
\<close>

theorem invalid_structure_exactly_when_part_missing:
  "(extract sg v = ([InvalidTransactionStructure (take 20 sg)], None) \<longleftrightarrow> view_message v = None)
   \<and> (view_message v \<noteq> None \<longrightarrow> InvalidTransactionStructure s' \<notin> set (fst (extract sg v)))
   \<and> (view_message v = None \<longrightarrow> NoTokenTransferFound s' \<notin> set (fst (extract sg v)))"
proof (cases "view_message v")
  case None
  then show ?thesis
    by (simp add: extract_invalid)
next
  case (Some m)
  have never: "InvalidTransactionStructure s' \<notin> set (fst (extract sg v))" for s'
  proof (cases "instructions m")
    case None
    with Some show ?thesis by (simp add: extract_no_instruction_list)
  next
    case (Some instrs)
    with \<open>view_message v = Some m\<close>
    have "extract sg v = scan_instructions (take 20 sg) (account_keys m) instrs"
      by (rule extract_valid)
    then show ?thesis by (simp add: scan_never_invalid_structure del: scan_instructions.simps)
  qed
  have "extract sg v \<noteq> ([InvalidTransactionStructure (take 20 sg)], None)"
  proof
    assume "extract sg v = ([InvalidTransactionStructure (take 20 sg)], None)"
    then have "InvalidTransactionStructure (take 20 sg) \<in> set (fst (extract sg v))" by simp
    with never show False by blast
  qed
  with Some never show ?thesis by simp
qed

theorem invalid_structure_exactly_when_part_missing_witness:
  "extract ''1111111111111111111111111111111111111111111111111111111111111111''
     \<lparr>value_transaction = Some \<lparr>transaction = Some \<lparr>message = None\<rparr>\<rparr>\<rparr>
     = ([InvalidTransactionStructure ''11111111111111111111''], None)
   \<and> InvalidTransactionStructure ''11111111111111111111''
       \<notin> set (fst (extract ''1111111111111111111111111111111111111111111111111111111111111111''
            (transaction_view [''A''] [Raw \<lparr>program_id_index = 5, accounts = [], data = []\<rparr>])))"
proof -
  let ?sg = "''1111111111111111111111111111111111111111111111111111111111111111''"
  let ?bad = "\<lparr>value_transaction = Some \<lparr>transaction = Some \<lparr>message = None\<rparr>\<rparr>\<rparr>"
  let ?ok = "transaction_view [''A''] [Raw \<lparr>program_id_index = 5, accounts = [], data = []\<rparr>]"
  have h1: "view_message ?bad = None" by (simp add: view_message_def)
  have h2: "view_message ?ok \<noteq> None" by (simp add: view_message_transaction_view)
  show ?thesis
    using h1 h2 invalid_structure_exactly_when_part_missing [of ?sg ?bad "take 20 ?sg"]
      invalid_structure_exactly_when_part_missing [of ?sg ?ok "take 20 ?sg"]
    by (simp del: scan_instructions.simps)
qed

text \<open>
  A view whose message is there but lacks its account table, and a view whose message
  lacks its instruction list, are not reported as malformed. Without the account table the
  compiled instruction raises a TypeError, which the loop catches, and the scan ends with
  the not-found line. Without the instruction list the loop header raises a TypeError,
  which the outer handler catches and prints as an error of the fetch.
\<close>

theorem missing_parts_not_reported_malformed:
  "extract ''1111111111111111111111111111111111111111111111111111111111111111''
     \<lparr>value_transaction = Some \<lparr>transaction = Some \<lparr>message = Some
        \<lparr>account_keys = None,
         instructions = Some [Raw \<lparr>program_id_index = 0, accounts = [], data = []\<rparr>]\<rparr>\<rparr>\<rparr>\<rparr>
     = ([ErrorParsingInstruction TypeError, NoTokenTransferFound ''11111111111111111111''], None)
   \<and> extract ''1111111111111111111111111111111111111111111111111111111111111111''
     \<lparr>value_transaction = Some \<lparr>transaction = Some \<lparr>message = Some
        \<lparr>account_keys = None,
         instructions = Some [Raw \<lparr>program_id_index = 0, accounts = [], data = []\<rparr>]\<rparr>\<rparr>\<rparr>\<rparr>
     \<noteq> ([InvalidTransactionStructure ''11111111111111111111''], None)
   \<and> extract ''1111111111111111111111111111111111111111111111111111111111111111''
     \<lparr>value_transaction = Some \<lparr>transaction = Some \<lparr>message = Some
        \<lparr>account_keys = Some [''A''], instructions = None\<rparr>\<rparr>\<rparr>\<rparr>
     = ([ErrorFetchingTransaction ''11111111111111111111'' TypeError], None)
   \<and> extract ''1111111111111111111111111111111111111111111111111111111111111111''
     \<lparr>value_transaction = Some \<lparr>transaction = Some \<lparr>message = Some
        \<lparr>account_keys = Some [''A''], instructions = None\<rparr>\<rparr>\<rparr>\<rparr>
     \<noteq> ([InvalidTransactionStructure ''11111111111111111111''], None)"
  by (simp add: extract_def extract_from_address_from_transaction_def)

section \<open>The structured reader\<close>

lemma truthy_present_nonempty: "truthy field = present_nonempty field"
  by (cases field) (simp_all add: present_nonempty_def)

lemma info_authority_fields:
  "info_authority (InfoDict flds) =
     Inr (if present_nonempty (flds ''authority'') then flds ''authority''
          else if present_nonempty (flds ''owner'') then flds ''owner''
          else flds ''multisigAuthority'')"
  by (simp add: info_authority_def and_then_def truthy_present_nonempty)

lemma structured_body_fields:
  "parsed s = ParsedDict ty (Some (InfoDict flds)) \<Longrightarrow>
   instruction_body keys (Structured s) = Inr (structured_reader_spec (parsed s))"
  by (simp add: info_authority_fields and_then_def truthy_present_nonempty)

lemma structured_authority:
  "instruction_authority keys (Structured s) = structured_reader_spec (parsed s)"
proof (cases "parsed s")
  case ParsedOther
  then show ?thesis by (simp add: instruction_authority_def)
next
  case (ParsedDict ty info_entry)
  show ?thesis
  proof (cases info_entry)
    case None
    with ParsedDict show ?thesis
      by (simp add: instruction_authority_def info_authority_def and_then_def)
  next
    case (Some info)
    show ?thesis
    proof (cases info)
      case InfoOther
      with ParsedDict Some show ?thesis
        by (simp add: instruction_authority_def info_authority_def and_then_def)
    next
      case (InfoDict flds)
      with ParsedDict Some have "parsed s = ParsedDict ty (Some (InfoDict flds))" by simp
      from structured_body_fields [OF this, of keys] show ?thesis
        by (simp add: instruction_authority_def del: instruction_body.simps)
    qed
  qed
qed

text \<open>
  C4. For every parsed instruction, what the loop body contributes is what the structured
  reader of the specification gives: the first of \<open>authority\<close>, \<open>owner\<close>,
  \<open>multisigAuthority\<close>, in this order, that is present and not empty, and nothing when
  none is. When \<open>info\<close> is a dict of fields the body returns this value normally.
\<close>

theorem structured_reader_priority:
  "instruction_authority keys (Structured s) = structured_reader_spec (parsed s)
   \<and> (parsed s = ParsedDict ty (Some (InfoDict flds)) \<longrightarrow>
        instruction_body keys (Structured s) = Inr (structured_reader_spec (parsed s)))"
  by (simp add: structured_authority structured_body_fields del: instruction_body.simps)

theorem structured_reader_priority_witness:
  "instruction_body (Some []) (Structured \<lparr>program = ''spl-token'', program_id = TOKEN_PROGRAM_ID,
      parsed = ParsedDict (Some ''transfer'')
        (Some (InfoDict [''owner'' \<mapsto> ''X'', ''multisigAuthority'' \<mapsto> ''Y'', ''authority'' \<mapsto> '''']))\<rparr>)
   = Inr (Some ''X'')"
  using structured_reader_priority [of "Some []" "\<lparr>program = ''spl-token'', program_id = TOKEN_PROGRAM_ID,
      parsed = ParsedDict (Some ''transfer'')
        (Some (InfoDict [''owner'' \<mapsto> ''X'', ''multisigAuthority'' \<mapsto> ''Y'', ''authority'' \<mapsto> '''']))\<rparr>"
      "Some ''transfer''" "[''owner'' \<mapsto> ''X'', ''multisigAuthority'' \<mapsto> ''Y'', ''authority'' \<mapsto> '''']"]
  by (simp add: present_nonempty_def del: instruction_body.simps)

text \<open>
  C10. A parsed instruction with a present, non-empty \<open>authority\<close>, \<open>owner\<close> or
  \<open>multisigAuthority\<close> makes the function return that value, whatever its program, its
  program id and its \<open>type\<close> are, and whatever the account table holds: the parsed
  branch never looks at the program. The token-program test is made on the compiled branch
  only, where an instruction of another program contributes nothing.
\<close>

theorem structured_bypasses_token_gate:
  "(structured_reader_spec (ParsedDict ty (Some (InfoDict flds))) = Some a
      \<and> (\<forall>j \<in> set pre. instruction_authority (Some keys) j = None)
    \<longrightarrow> extract sg (transaction_view keys
          (pre @ Structured \<lparr>program = p, program_id = pid,
                             parsed = ParsedDict ty (Some (InfoDict flds))\<rparr> # post))
        = (errors_printed (Some keys) pre, Some a))
   \<and> (program_id_index r < length keys
      \<and> keys ! program_id_index r \<notin> {TOKEN_PROGRAM_ID, TOKEN_2022_PROGRAM_ID}
    \<longrightarrow> instruction_body (Some keys) (Raw r) = Inr None)"
proof (intro conjI impI)
  let ?s = "\<lparr>program = p, program_id = pid, parsed = ParsedDict ty (Some (InfoDict flds))\<rparr>"
  assume h: "structured_reader_spec (ParsedDict ty (Some (InfoDict flds))) = Some a
      \<and> (\<forall>j \<in> set pre. instruction_authority (Some keys) j = None)"
  then have some: "instruction_authority (Some keys) (Structured ?s) = Some a"
    by (simp add: structured_authority del: structured_reader_spec.simps)
  from h have none: "\<forall>j \<in> set pre. instruction_authority (Some keys) j = None" by simp
  show "extract sg (transaction_view keys (pre @ Structured ?s # post))
        = (errors_printed (Some keys) pre, Some a)"
    using scan_first_match [OF none some]
    by (simp add: extract_transaction_view del: scan_instructions.simps)
next
  assume "program_id_index r < length keys
      \<and> keys ! program_id_index r \<notin> {TOKEN_PROGRAM_ID, TOKEN_2022_PROGRAM_ID}"
  then show "instruction_body (Some keys) (Raw r) = Inr None"
    by (simp add: subscript_def and_then_def)
qed

theorem structured_bypasses_token_gate_witness:
  "extract ''1111111111111111111111111111111111111111111111111111111111111111''
    (transaction_view [''A'', ''B'', ''C'', ''11111111111111111111111111111111'']
      [Structured \<lparr>program = ''system'', program_id = ''11111111111111111111111111111111'',
                   parsed = ParsedDict (Some ''createAccount'')
                              (Some (InfoDict [''owner'' \<mapsto> ''X'']))\<rparr>])
     = ([], Some ''X'')
   \<and> instruction_body (Some [''A'', ''B'', ''C'', ''11111111111111111111111111111111''])
       (Raw \<lparr>program_id_index = 3, accounts = [0, 1, 2],
              data = [3, 1, 0, 0, 0, 0, 0, 0, 0]\<rparr>)
     = Inr None"
proof -
  let ?keys = "[''A'', ''B'', ''C'', ''11111111111111111111111111111111'']"
  let ?r = "\<lparr>program_id_index = 3, accounts = [0, 1, 2],
              data = [3, 1, 0, 0, 0, 0, 0, 0, 0 :: 8 word]\<rparr>"
  have h1: "structured_reader_spec
      (ParsedDict (Some ''createAccount'') (Some (InfoDict [''owner'' \<mapsto> ''X''])))
      = Some ''X'' \<and> (\<forall>j \<in> set []. instruction_authority (Some ?keys) j = None)"
    by (simp add: present_nonempty_def)
  have h2: "program_id_index ?r < length ?keys
      \<and> ?keys ! program_id_index ?r \<notin> {TOKEN_PROGRAM_ID, TOKEN_2022_PROGRAM_ID}"
    by (simp add: TOKEN_PROGRAM_ID_def TOKEN_2022_PROGRAM_ID_def)
  have e: "errors_printed (Some ?keys) [] = []" by (rule errors_printed_Nil)
  show ?thesis
    using h1 h2 e structured_bypasses_token_gate [of "Some ''createAccount''"
        "[''owner'' \<mapsto> ''X'']" "''X''" "[]" ?keys
        "''1111111111111111111111111111111111111111111111111111111111111111''" "''system''"
        "''11111111111111111111111111111111''" "[]" ?r]
    by (simp del: instruction_body.simps scan_instructions.simps structured_reader_spec.simps)
qed

end
